theory Spec2Isabelle
  imports Main "HOL-Library.Word"
begin

section \<open>The Actor of source/main/physics/Beam.h\<close>

text \<open>
  Beam.h declares the class \<open>Actor\<close>: its enumerations, its data members and its member
  functions. Only the member functions written inline in the header have a body there;
  \<open>IsNodeIdValid\<close> is the one of them that takes a node index.
\<close>

subsection \<open>Machine integers\<close>

text \<open>
  A C++ \<open>int\<close> is a 32-bit two's complement value. The comparisons "greater than" and
  "less than" of two \<open>int\<close>s are the signed ones, \<^term>\<open>word_sless\<close> on words.
\<close>

type_synonym cint = "32 word"

subsection \<open>Enumerations of the class\<close>

text \<open>\<open>enum class SimState\<close>, in the order of the header.\<close>

datatype SimState =
    LOCAL_SIMULATED
  | NETWORKED_OK
  | LOCAL_SLEEPING
  | INVALID

subsection \<open>Data members\<close>

text \<open>
  The members a node index is checked against: \<open>node_t* ar_nodes\<close> with its count
  \<open>int ar_num_nodes\<close>. The struct \<open>node_t\<close> is declared in BeamData.h, so the node type is
  left open as the type parameter \<open>'node\<close>; the array is the list of its elements.
\<close>

record 'node Actor =
  ar_nodes :: "'node list"
  ar_num_nodes :: cint
  ar_sim_state :: SimState

subsection \<open>Inline member functions\<close>

text \<open>
  \<^verbatim>\<open>bool IsNodeIdValid(int id) const { return (id > 0) && (id < ar_num_nodes); }\<close>
  The parameter \<open>id\<close> is written \<open>nid\<close>, since \<open>id\<close> is the identity function of HOL.
\<close>

definition IsNodeIdValid :: "('node, 'more) Actor_scheme \<Rightarrow> cint \<Rightarrow> bool" where
  "IsNodeIdValid a nid \<longleftrightarrow> (0 <s nid) \<and> (nid <s ar_num_nodes a)"

text \<open>\<^verbatim>\<open>int GetNumNodes() const { return ar_num_nodes; }\<close>\<close>

definition GetNumNodes :: "('node, 'more) Actor_scheme \<Rightarrow> cint" where
  "GetNumNodes a = ar_num_nodes a"

text \<open>
  The indices that address an element of the array \<open>ar_nodes\<close> of \<open>ar_num_nodes\<close> elements:
  \<open>0\<close> up to \<open>ar_num_nodes - 1\<close>, as C++ indexes an array.
\<close>

definition addresses_node :: "('node, 'more) Actor_scheme \<Rightarrow> cint \<Rightarrow> bool" where
  "addresses_node a nid \<longleftrightarrow> 0 \<le> sint nid \<and> sint nid < sint (ar_num_nodes a)"

section \<open>The node index predicate\<close>

lemma IsNodeIdValid_sint:
  "IsNodeIdValid a nid \<longleftrightarrow> 0 < sint nid \<and> sint nid < sint (ar_num_nodes a)"
  by (simp add: IsNodeIdValid_def word_sless_alt)

text \<open>
  An index that addresses no element of the node array, negative or at least the node
  count, is never reported as valid.
\<close>

lemma IsNodeIdValid_out_of_range:
  "\<not> addresses_node a nid \<Longrightarrow> \<not> IsNodeIdValid a nid"
  by (auto simp: IsNodeIdValid_sint addresses_node_def)

text \<open>
  Claim C10. For every actor and every \<open>int\<close> value \<open>nid\<close>, \<open>IsNodeIdValid nid\<close> is true exactly
  when \<open>nid\<close>, read as a signed integer, is strictly greater than 0 and strictly less than
  the actor's node count. Node index 0 is reported as invalid by every actor, and in an
  actor that has nodes it is an index that addresses an element of the node array.
\<close>

theorem IsNodeIdValid_iff:
  "(IsNodeIdValid a nid \<longleftrightarrow> 0 < sint nid \<and> sint nid < sint (GetNumNodes a))
   \<and> \<not> IsNodeIdValid a 0
   \<and> (0 < sint (GetNumNodes a) \<longrightarrow> addresses_node a 0 \<and> \<not> IsNodeIdValid a 0)"
  by (simp add: IsNodeIdValid_sint GetNumNodes_def addresses_node_def)

theorem IsNodeIdValid_iff_witness:
  "0 < sint (GetNumNodes \<lparr>ar_nodes = [(), (), ()], ar_num_nodes = 3, ar_sim_state = LOCAL_SIMULATED\<rparr>)
   \<and> addresses_node \<lparr>ar_nodes = [(), (), ()], ar_num_nodes = 3, ar_sim_state = LOCAL_SIMULATED\<rparr> 0
   \<and> \<not> IsNodeIdValid \<lparr>ar_nodes = [(), (), ()], ar_num_nodes = 3, ar_sim_state = LOCAL_SIMULATED\<rparr> 0
   \<and> IsNodeIdValid \<lparr>ar_nodes = [(), (), ()], ar_num_nodes = 3, ar_sim_state = LOCAL_SIMULATED\<rparr> 2
   \<and> \<not> IsNodeIdValid \<lparr>ar_nodes = [(), (), ()], ar_num_nodes = 3, ar_sim_state = LOCAL_SIMULATED\<rparr> 3
   \<and> \<not> IsNodeIdValid \<lparr>ar_nodes = [(), (), ()], ar_num_nodes = 3, ar_sim_state = LOCAL_SIMULATED\<rparr> (- 1)"
  using IsNodeIdValid_iff [of "\<lparr>ar_nodes = [(), (), ()], ar_num_nodes = 3, ar_sim_state = LOCAL_SIMULATED\<rparr>" 0]
    IsNodeIdValid_iff [of "\<lparr>ar_nodes = [(), (), ()], ar_num_nodes = 3, ar_sim_state = LOCAL_SIMULATED\<rparr>" 2]
    IsNodeIdValid_iff [of "\<lparr>ar_nodes = [(), (), ()], ar_num_nodes = 3, ar_sim_state = LOCAL_SIMULATED\<rparr>" 3]
    IsNodeIdValid_iff [of "\<lparr>ar_nodes = [(), (), ()], ar_num_nodes = 3, ar_sim_state = LOCAL_SIMULATED\<rparr>" "- 1"]
  by (simp add: GetNumNodes_def)

end
